theory Spec2Isabelle
  imports Main "HOL-Library.Sublist"
begin

section \<open>Errors\<close>

text \<open>
  The exceptions the three scripts can end with. None of the scripts has a
  \<^verbatim>\<open>try\<close>: an exception raised anywhere ends the running script.
  \<^item> \<open>AttributeError\<close>: an attribute of \<^verbatim>\<open>None\<close> is read (\<^verbatim>\<open>soup.body.clear()\<close> when the
    document has no body tag);
  \<^item> \<open>OSError\<close>: \<^verbatim>\<open>open\<close>/\<^verbatim>\<open>read\<close> fails on a path;
  \<^item> \<open>StoreError\<close>: the vector store raises.
\<close>

datatype error = AttributeError | OSError | StoreError

section \<open>Query Tool (query_with_context.py)\<close>

text \<open>
  A retrieved document, as the vector store hands it back: its text and its metadata.
  The script reads \<^verbatim>\<open>page_content\<close> only.
\<close>

record document =
  page_content :: string
  metadata :: "(string \<times> string) list"

definition top_k :: nat where
  "top_k = 5"

text \<open>Python's decimal rendering of a non-negative integer, as \<^verbatim>\<open>f"{i+1}"\<close> produces it.\<close>

definition digit :: "nat \<Rightarrow> char" where
  "digit d = char_of (48 + d)"

function str_nat :: "nat \<Rightarrow> string" where
  "str_nat n = (if n < 10 then [digit n] else str_nat (n div 10) @ [digit (n mod 10)])"
  by pat_completeness auto
termination
  by (relation "measure id") auto

declare str_nat.simps [simp del]

text \<open>Line 16: the fixed first part of the prompt.\<close>

definition preamble :: string where
  "preamble =
     ''You are an expert. Use the following information to answer the user's question.\<newline>\<newline>''"

text \<open>
  Lines 17-18: \<^verbatim>\<open>for i, doc in enumerate(results): prompt += f"[Source {i+1}]\n{doc.page_content}\n\n"\<close>.
  The loop variable \<open>prompt\<close> is the accumulator, \<open>i\<close> the index \<^verbatim>\<open>enumerate\<close> has
  reached, the list what is left of \<open>results\<close>.
\<close>

fun add_sources :: "string \<Rightarrow> nat \<Rightarrow> document list \<Rightarrow> string" where
  "add_sources prompt i [] = prompt"
| "add_sources prompt i (doc # rest) =
     add_sources
       (prompt @ ''[Source '' @ str_nat (i + 1) @ '']\<newline>'' @ page_content doc @ ''\<newline>\<newline>'')
       (Suc i) rest"

text \<open>Lines 16-19: the prompt built from the query and the retrieved list.\<close>

definition render_prompt :: "string \<Rightarrow> document list \<Rightarrow> string" where
  "render_prompt query results =
     add_sources preamble 0 results @ ''User's question: '' @ query @ ''\<newline>\<newline>Answer:''"

text \<open>
  Lines 14-19. \<^verbatim>\<open>vectordb.similarity_search\<close> belongs to the vector store library, so it
  is a parameter here: given the query and \<open>k\<close> it returns the retrieved documents in
  rank order, or raises. An exception of the search ends the script before any prompt
  is built.
\<close>

definition query_tool ::
  "(string \<Rightarrow> nat \<Rightarrow> error + document list) \<Rightarrow> string \<Rightarrow> error + string" where
  "query_tool similarity_search query =
     (case similarity_search query top_k of
        Inl e \<Rightarrow> Inl e
      | Inr results \<Rightarrow> Inr (render_prompt query results))"

text \<open>The block of the prompt for the document of rank \<open>n\<close> (counted from 1).\<close>

definition source_block :: "nat \<Rightarrow> document \<Rightarrow> string" where
  "source_block n doc =
     ''[Source '' @ str_nat n @ '']\<newline>'' @ page_content doc @ ''\<newline>\<newline>''"

section \<open>The parsed document (BeautifulSoup)\<close>

text \<open>
  A node of the parse tree: a piece of text (\<^verbatim>\<open>NavigableString\<close>, which also stands for
  comments and doctypes, its subclasses) or a tag with its name, its \<^verbatim>\<open>id\<close> attribute
  (if it has one), the list of its classes and its children in order. The cleaner reads
  no other attribute. The \<^verbatim>\<open>BeautifulSoup\<close> object is itself a tag, named
  \<^verbatim>\<open>[document]\<close>, whose children are the top-level nodes.

  A Python object reference to a node of the tree is a path here: the child indexes
  from the root down to the node. \<^verbatim>\<open>find\<close> returns the path together with the node.
\<close>

datatype node =
    NavigableString string
  | Tag string "string option" "string list" "node list"

type_synonym path = "nat list"

fun get_node :: "node \<Rightarrow> path \<Rightarrow> node option" where
  "get_node n [] = Some n"
| "get_node (NavigableString s) (k # p) = None"
| "get_node (Tag nm i cs ks) (k # p) = (if k < length ks then get_node (ks ! k) p else None)"

text \<open>
  \<^verbatim>\<open>tag.find(...)\<close>: the first descendant, in document order (a node before its
  children, children left to right), that matches; \<^verbatim>\<open>None\<close> when there is none.
  \<open>find_from P k xs\<close> searches the children \<open>xs\<close>, the first of which has index \<open>k\<close>.
\<close>

fun find_first :: "(node \<Rightarrow> bool) \<Rightarrow> node \<Rightarrow> (path \<times> node) option"
  and find_from :: "(node \<Rightarrow> bool) \<Rightarrow> nat \<Rightarrow> node list \<Rightarrow> (path \<times> node) option" where
  "find_first P (NavigableString s) = None"
| "find_first P (Tag nm i cs ks) = find_from P 0 ks"
| "find_from P k [] = None"
| "find_from P k (x # xs) =
     (if P x then Some ([k], x)
      else case find_first P x of
             Some (p, n) \<Rightarrow> Some (k # p, n)
           | None \<Rightarrow> find_from P (Suc k) xs)"

text \<open>The two kinds of search the cleaner makes: by tag name, and by tag name and id.\<close>

fun tag_named :: "string \<Rightarrow> node \<Rightarrow> bool" where
  "tag_named nm (NavigableString s) = False"
| "tag_named nm (Tag nm' i cs ks) = (nm' = nm)"

fun tag_with_id :: "string \<Rightarrow> string \<Rightarrow> node \<Rightarrow> bool" where
  "tag_with_id nm v (NavigableString s) = False"
| "tag_with_id nm v (Tag nm' i cs ks) = (nm' = nm \<and> i = Some v)"

text \<open>
  Replacing the child list of the tag at a path; everything else stays. This is the
  one way the cleaner's steps below change the tree at a known node.
\<close>

fun update_contents :: "path \<Rightarrow> (node list \<Rightarrow> node list) \<Rightarrow> node \<Rightarrow> node" where
  "update_contents p f (NavigableString s) = NavigableString s"
| "update_contents [] f (Tag nm i cs ks) = Tag nm i cs (f ks)"
| "update_contents (k # p) f (Tag nm i cs ks) =
     Tag nm i cs (if k < length ks then ks[k := update_contents p f (ks ! k)] else ks)"

text \<open>\<^verbatim>\<open>node.extract()\<close> for the node at a path: it leaves its parent's child list.\<close>

definition extract_at :: "path \<Rightarrow> node \<Rightarrow> node" where
  "extract_at p soup =
     (if p = [] then soup
      else update_contents (butlast p) (\<lambda>ks. take (last p) ks @ drop (Suc (last p)) ks) soup)"

text \<open>
  Where the node that was at path \<open>q\<close> is after the node at path \<open>p\<close> has been extracted
  (\<open>q\<close> not inside \<open>p\<close>): a later sibling of \<open>p\<close>, or a node below one, moves one place
  to the left; every other node keeps its path.
\<close>

fun path_after_extract :: "path \<Rightarrow> path \<Rightarrow> path" where
  "path_after_extract [i] (j # q) = (if i < j then (j - 1) # q else j # q)"
| "path_after_extract (i # p) (j # q) = (if i = j then j # path_after_extract p q else j # q)"
| "path_after_extract p q = q"

section \<open>HTML Cleaner (parse_html.py)\<close>

subsection \<open>Lines 9-13: retain only the main content area\<close>

text \<open>
  \<^verbatim>\<open>content_root = soup.find("div", id="mw-content-text")\<close>
  \<^verbatim>\<open>if content_root: soup.body.clear(); soup.body.append(content_root)\<close>

  \<^item> A tag is always true in Python, so the test is whether the search found one.
  \<^item> \<^verbatim>\<open>soup.body\<close> is \<^verbatim>\<open>soup.find("body")\<close>, evaluated twice; it is \<^verbatim>\<open>None\<close> when the
    document has no body tag, and \<^verbatim>\<open>None.clear()\<close> raises \<^verbatim>\<open>AttributeError\<close>.
  \<^item> \<^verbatim>\<open>clear()\<close> detaches every child of the body. If the content root was below the
    body it is detached with them (its own subtree intact); otherwise it is still in
    the document and \<^verbatim>\<open>append\<close> extracts it from its place first.
  \<^item> When the body lies inside the content root, \<^verbatim>\<open>append\<close> would put the content root
    below its own descendant. What bs4 builds then is no tree; the model stops with
    \<open>CircularAppend\<close> and says nothing about that case.
\<close>

datatype failure = Raised error | CircularAppend

definition retain_main_content :: "node \<Rightarrow> failure + node" where
  "retain_main_content soup =
     (case find_first (tag_with_id ''div'' ''mw-content-text'') soup of
        None \<Rightarrow> Inr soup
      | Some (p, content_root) \<Rightarrow>
          (case find_first (tag_named ''body'') soup of
             None \<Rightarrow> Inl (Raised AttributeError)
           | Some (b, body) \<Rightarrow>
               if prefix p b then Inl CircularAppend
               else
                 let soup1 = update_contents b (\<lambda>ks. []) soup in
                 (case find_first (tag_named ''body'') soup1 of
                    None \<Rightarrow> Inl (Raised AttributeError)
                  | Some (b1, body1) \<Rightarrow>
                      if prefix b p
                      then Inr (update_contents b1 (\<lambda>ks. ks @ [content_root]) soup1)
                      else Inr (update_contents (path_after_extract p b1)
                                  (\<lambda>ks. ks @ [content_root]) (extract_at p soup1)))))"

subsection \<open>Lines 15-21: remove UI clutter\<close>

text \<open>
  \<^verbatim>\<open>for selector in [...]: for tag in soup.select(selector): tag.decompose()\<close>

  The selectors of the list are a class (\<^verbatim>\<open>.navbox\<close>) or a class below a class
  (\<^verbatim>\<open>.mw-parser-output .hlist\<close>: a tag of class \<^verbatim>\<open>hlist\<close> with an ancestor of class
  \<^verbatim>\<open>mw-parser-output\<close>). \<^verbatim>\<open>select\<close> lists the matching descendants of the document as it
  is before any of them is removed; decomposing all of them leaves the tree without
  the matching tags and what is below them. The flag \<open>inside\<close> says that some ancestor
  carries the outer class.
\<close>

datatype selector = Class string | Descendant string string

fun has_class :: "string \<Rightarrow> node \<Rightarrow> bool" where
  "has_class c (NavigableString s) = False"
| "has_class c (Tag nm i cs ks) = (c \<in> set cs)"

fun selected :: "selector \<Rightarrow> bool \<Rightarrow> node \<Rightarrow> bool" where
  "selected (Class c) inside n = has_class c n"
| "selected (Descendant a c) inside n = (inside \<and> has_class c n)"

fun inside_below :: "selector \<Rightarrow> bool \<Rightarrow> node \<Rightarrow> bool" where
  "inside_below (Class c) inside n = inside"
| "inside_below (Descendant a c) inside n = (inside \<or> has_class a n)"

fun decompose_selected :: "selector \<Rightarrow> bool \<Rightarrow> node \<Rightarrow> node"
  and decompose_selected_list :: "selector \<Rightarrow> bool \<Rightarrow> node list \<Rightarrow> node list" where
  "decompose_selected sel inside (NavigableString s) = NavigableString s"
| "decompose_selected sel inside (Tag nm i cs ks) =
     Tag nm i cs (decompose_selected_list sel (inside_below sel inside (Tag nm i cs ks)) ks)"
| "decompose_selected_list sel inside [] = []"
| "decompose_selected_list sel inside (x # xs) =
     (if selected sel inside x then decompose_selected_list sel inside xs
      else decompose_selected sel inside x # decompose_selected_list sel inside xs)"

definition selectors :: "selector list" where
  "selectors =
     [Class ''navbox'', Class ''printfooter'', Class ''toc'', Class ''mw-editsection'',
      Descendant ''mw-parser-output'' ''hlist'']"

definition remove_ui_clutter :: "node \<Rightarrow> node" where
  "remove_ui_clutter soup = fold (\<lambda>sel s. decompose_selected sel False s) selectors soup"

subsection \<open>Lines 23-29: remove junk strings\<close>

text \<open>Python's \<^verbatim>\<open>sub in s\<close> on strings.\<close>

fun contains :: "string \<Rightarrow> string \<Rightarrow> bool" where
  "contains sub [] = (sub = [])"
| "contains sub (c # cs) = (prefix sub (c # cs) \<or> contains sub cs)"

definition junk :: "string \<Rightarrow> bool" where
  "junk s \<longleftrightarrow>
     contains ''wiki.'' s \<or> contains ''Retrieved from'' s \<or> contains ''In other languages:'' s"

text \<open>
  \<^verbatim>\<open>for el in soup.find_all(string=...): el.extract()\<close>: every text node whose text
  satisfies the test leaves its parent.
\<close>

fun extract_strings :: "(string \<Rightarrow> bool) \<Rightarrow> node \<Rightarrow> node"
  and extract_strings_list :: "(string \<Rightarrow> bool) \<Rightarrow> node list \<Rightarrow> node list" where
  "extract_strings Q (NavigableString s) = NavigableString s"
| "extract_strings Q (Tag nm i cs ks) = Tag nm i cs (extract_strings_list Q ks)"
| "extract_strings_list Q [] = []"
| "extract_strings_list Q (NavigableString s # xs) =
     (if Q s then extract_strings_list Q xs
      else NavigableString s # extract_strings_list Q xs)"
| "extract_strings_list Q (Tag nm i cs ks # xs) =
     extract_strings Q (Tag nm i cs ks) # extract_strings_list Q xs"

definition remove_junk_strings :: "node \<Rightarrow> node" where
  "remove_junk_strings soup = extract_strings junk soup"

subsection \<open>Lines 31-43: remove the "See also" section\<close>

text \<open>\<^verbatim>\<open>next_node.name and next_node.name.startswith("h")\<close>\<close>

fun starts_with_h :: "string \<Rightarrow> bool" where
  "starts_with_h [] = False"
| "starts_with_h (c # cs) = (c = CHR ''h'')"

text \<open>
  \<^verbatim>\<open>tag.find_parent(name)\<close>: the nearest ancestor with that tag name. The ancestors of
  the node at path \<open>p\<close> are at the proper prefixes of \<open>p\<close>, the nearest first; the
  \<^verbatim>\<open>BeautifulSoup\<close> object at the empty path is named \<^verbatim>\<open>[document]\<close> and is left out.
\<close>

definition find_parent :: "string \<Rightarrow> node \<Rightarrow> path \<Rightarrow> path option" where
  "find_parent nm soup p =
     List.find (\<lambda>q. case get_node soup q of Some n \<Rightarrow> tag_named nm n | None \<Rightarrow> False)
       (map (\<lambda>k. take k p) (rev [1..<length p]))"

text \<open>
  The loop of lines 36-42, run on the siblings that follow \<open>current\<close>:
  \<^verbatim>\<open>
  while current:
      next_node = current.find_next_sibling()
      if next_node and next_node.name and next_node.name.startswith("h"):
          break
      current.decompose()
      current = next_node
  \<close>
  \<^verbatim>\<open>find_next_sibling()\<close> without arguments returns the next sibling that is a tag and
  passes over text nodes. \<open>sweep xs\<close>, for the siblings \<open>xs\<close> after \<open>current\<close>, returns
  whether \<open>current\<close> is still in the tree when the loop ends and what is left of \<open>xs\<close>:
  \<^item> no tag follows: \<open>current\<close> is decomposed and the loop ends with \<^verbatim>\<open>current = None\<close>;
  \<^item> a text node follows: it is passed over and stays;
  \<^item> the next tag has a name that starts with \<^verbatim>\<open>h\<close>: \<^verbatim>\<open>break\<close>, before
    \<open>current\<close> is decomposed;
  \<^item> any other next tag: \<open>current\<close> is decomposed and the tag becomes \<open>current\<close>; whether
    it stays is what the rest of the loop returns for it.
\<close>

fun sweep :: "node list \<Rightarrow> bool \<times> node list" where
  "sweep [] = (False, [])"
| "sweep (NavigableString s # rest) =
     (case sweep rest of (attached, rest') \<Rightarrow> (attached, NavigableString s # rest'))"
| "sweep (Tag nm i cs ks # rest) =
     (if starts_with_h nm then (True, Tag nm i cs ks # rest)
      else case sweep rest of (attached, rest') \<Rightarrow>
             (False, if attached then Tag nm i cs ks # rest' else rest'))"

text \<open>
  Lines 32-43. The loop starts with \<open>current = heading\<close>; line 43 decomposes the
  heading whether or not the loop already did, so the heading is gone in either case
  and its following siblings are what \<open>sweep\<close> left of them.
\<close>

definition remove_see_also :: "node \<Rightarrow> node" where
  "remove_see_also soup =
     (case find_first (tag_with_id ''span'' ''See_also'') soup of
        None \<Rightarrow> soup
      | Some (s, see_also_span) \<Rightarrow>
          (case find_parent ''h2'' soup s of
             None \<Rightarrow> soup
           | Some heading \<Rightarrow>
               update_contents (butlast heading)
                 (\<lambda>ks. take (last heading) ks @ snd (sweep (drop (Suc (last heading)) ks)))
                 soup))"

subsection \<open>Lines 5-46: clean_html_file\<close>

text \<open>The steps of lines 9-43 on the parsed document.\<close>

definition clean_soup :: "node \<Rightarrow> failure + node" where
  "clean_soup soup =
     (case retain_main_content soup of
        Inl f \<Rightarrow> Inl f
      | Inr soup1 \<Rightarrow> Inr (remove_see_also (remove_junk_strings (remove_ui_clutter soup1))))"

text \<open>
  The file system maps a path to the text of the file; a path that cannot be opened
  and read as UTF-8 text maps to \<open>None\<close>. The functions of other libraries are
  parameters: the HTML parser (\<^verbatim>\<open>BeautifulSoup(text, "html.parser")\<close>), the serialiser
  (\<^verbatim>\<open>str(soup)\<close>), and \<^verbatim>\<open>partition_html\<close>, here from the text of the cleaned file to the
  texts of the elements it returns, or an exception. Writing a file is taken to succeed.
\<close>

type_synonym fs = "string \<rightharpoonup> string"

record library =
  html_parser :: "string \<Rightarrow> node"
  to_str :: "node \<Rightarrow> string"
  partition_html :: "string \<Rightarrow> error + string list"

definition clean_html_file :: "library \<Rightarrow> string \<Rightarrow> string \<Rightarrow> fs \<Rightarrow> failure + fs" where
  "clean_html_file lib input_path output_path files =
     (case files input_path of
        None \<Rightarrow> Inl (Raised OSError)
      | Some text \<Rightarrow>
          (case clean_soup (html_parser lib text) of
             Inl f \<Rightarrow> Inl f
           | Inr soup \<Rightarrow> Inr (files(output_path \<mapsto> to_str lib soup))))"

subsection \<open>Lines 48-69: the main script\<close>







section \<open>Notions used to state the properties\<close>

text \<open>
  The first match at a node or below it: the node itself when it matches, otherwise
  what \<open>find_first\<close> returns for its descendants.
\<close>

definition first_match :: "(node \<Rightarrow> bool) \<Rightarrow> node \<Rightarrow> (path \<times> node) option" where
  "first_match P x = (if P x then Some ([], x) else find_first P x)"







section \<open>Example documents and files\<close>

text \<open>A page whose main content is a sibling of the body, and one with no body tag.\<close>

definition main_content :: node where
  "main_content =
     Tag ''div'' (Some ''mw-content-text'') [] [Tag ''p'' None [] [NavigableString ''Paris'']]"

definition page_with_body :: node where
  "page_with_body =
     Tag ''[document]'' None []
       [main_content,
        Tag ''body'' None [] [Tag ''div'' None [''menu''] [NavigableString ''Home'']]]"

definition page_without_body :: node where
  "page_without_body = Tag ''[document]'' None [] [main_content]"


text \<open>Pages with a "See also" heading: an \<^verbatim>\<open>h2\<close> followed by a section, and an \<^verbatim>\<open>h3\<close>.\<close>

definition see_also_span :: node where
  "see_also_span = Tag ''span'' (Some ''See_also'') [''mw-headline''] [NavigableString ''See also'']"



text \<open>
  A library for the examples: the parser knows one HTML text and takes any other text
  as a document of that text alone; the serialiser writes the text of the document;
  \<^verbatim>\<open>partition_html\<close> returns the whole text as one element.
\<close>

fun text_of :: "node \<Rightarrow> string"
  and text_of_list :: "node list \<Rightarrow> string" where
  "text_of (NavigableString s) = s"
| "text_of (Tag nm i cs ks) = text_of_list ks"
| "text_of_list [] = []"
| "text_of_list (x # xs) = text_of x @ text_of_list xs"

definition example_library :: library where
  "example_library =
     \<lparr>html_parser = (\<lambda>text. if text = ''<div id=mw-content-text><p>Paris</p></div>''
                              then page_without_body
                              else Tag ''[document]'' None [] [NavigableString text]),
      to_str = text_of,
      partition_html = (\<lambda>html. Inr [html])\<rparr>"

definition example_files :: fs where
  "example_files =
     [''raw-html/a.html'' \<mapsto> ''<div id=mw-content-text><p>Paris</p></div>'',
      ''raw-html/b.html'' \<mapsto> ''Berlin'']"

section \<open>Properties of the Query Tool\<close>

lemma add_sources_closed_form:
  "add_sources prompt i results =
     prompt @ concat (map (\<lambda>j. source_block (i + j + 1) (results ! j)) [0..<length results])"
proof (induction results arbitrary: prompt i)
  case Nil
  show ?case by simp
next
  case (Cons doc rest)
  have shift: "map (\<lambda>j. source_block (i + j + 1) ((doc # rest) ! j)) [0..<length (doc # rest)] =
      source_block (i + 1) doc # map (\<lambda>j. source_block (Suc i + j + 1) (rest ! j)) [0..<length rest]"
  proof -
    have "[0..<length (doc # rest)] = 0 # map Suc [0..<length rest]"
      by (simp add: upt_conv_Cons map_Suc_upt del: upt_Suc)
    then show ?thesis
      by (simp add: comp_def)
  qed
  show ?case
    unfolding add_sources.simps Cons.IH shift
    by (simp add: source_block_def)
qed

text \<open>
  C5. The prompt is the preamble, then one block \<open>[Source N]\<close>, newline, chunk text,
  blank line for each retrieved document, N running from 1 in rank order, then
  \<open>User's question: \<close>, the query, a blank line and \<open>Answer:\<close>; so it ends with
  \<open>User's question: \<close> followed by the query, a blank line and \<open>Answer:\<close>.
\<close>

theorem C5_prompt_layout:
  "render_prompt query results =
     preamble
     @ concat (map (\<lambda>j. ''[Source '' @ str_nat (j + 1) @ '']\<newline>''
                          @ page_content (results ! j) @ ''\<newline>\<newline>'')
                   [0..<length results])
     @ ''User's question: '' @ query @ ''\<newline>\<newline>Answer:''
   \<and> suffix (''User's question: '' @ query @ ''\<newline>\<newline>Answer:'')
        (render_prompt query results)"
  by (simp add: render_prompt_def add_sources_closed_form source_block_def suffix_def)

text \<open>
  The scenario of the specification: one retrieved chunk, \<open>Paris is the capital of France.\<close>,
  for the query \<open>What is the capital of France?\<close>.
\<close>

lemma render_prompt_scenario:
  "render_prompt ''What is the capital of France?''
     [\<lparr>page_content = ''Paris is the capital of France.'', metadata = []\<rparr>] =
   ''You are an expert. Use the following information to answer the user's question.\<newline>\<newline>''
   @ ''[Source 1]\<newline>Paris is the capital of France.\<newline>\<newline>''
   @ ''User's question: What is the capital of France?\<newline>\<newline>Answer:''"
  by code_simp



text \<open>
  C9. The prompt is a function of the query and of the retrieved list alone: two runs
  whose searches return the same list for the query (whatever else differs between the
  two indexes) print the same prompt, character for character.
\<close>

theorem C9_render_deterministic:
  "search1 query top_k = search2 query top_k \<Longrightarrow>
   query_tool search1 query = query_tool search2 query"
  by (simp add: query_tool_def)

theorem C9_render_deterministic_witness:
  "(\<lambda>q k. Inr (if q = ''a'' then [\<lparr>page_content = ''Paris'', metadata = []\<rparr>] else [])) ''a'' top_k
     = (\<lambda>q k. Inr [\<lparr>page_content = ''Paris'', metadata = []\<rparr>] :: error + document list) ''a'' top_k
   \<and> query_tool (\<lambda>q k. Inr (if q = ''a'' then [\<lparr>page_content = ''Paris'', metadata = []\<rparr>] else [])) ''a''
     = query_tool (\<lambda>q k. Inr [\<lparr>page_content = ''Paris'', metadata = []\<rparr>]) ''a''"
  using C9_render_deterministic
    [of "\<lambda>q k. Inr (if q = ''a'' then [\<lparr>page_content = ''Paris'', metadata = []\<rparr>] else [])"
        "''a''" "\<lambda>q k. Inr [\<lparr>page_content = ''Paris'', metadata = []\<rparr>]"]
  by simp

section \<open>Facts about searching and changing the tree\<close>

lemma find_from_Cons: "find_from P k (x # xs) =
  (case first_match P x of Some (p, n) \<Rightarrow> Some (k # p, n) | None \<Rightarrow> find_from P (Suc k) xs)"
  by (simp add: first_match_def)

lemma find_from_None_iff:
  "find_from P k xs = None \<longleftrightarrow> (\<forall>x\<in>set xs. first_match P x = None)"
  by (induction xs arbitrary: k) (auto simp: find_from_Cons simp del: find_from.simps(2) split: option.splits)

lemma find_from_Some_iff:
  "find_from P k xs = Some (b, n) \<longleftrightarrow>
     (\<exists>j b'. b = (k + j) # b' \<and> j < length xs \<and> (\<forall>i<j. first_match P (xs ! i) = None)
        \<and> first_match P (xs ! j) = Some (b', n))"
proof (induction xs arbitrary: k)
  case Nil
  show ?case by simp
next
  case (Cons x xs)
  show ?case
  proof (cases "first_match P x")
    case None
    have "find_from P k (x # xs) = Some (b, n) \<longleftrightarrow> find_from P (Suc k) xs = Some (b, n)"
      using None by (simp add: find_from_Cons del: find_from.simps(2))
    also have "\<dots> \<longleftrightarrow> (\<exists>j b'. b = (Suc k + j) # b' \<and> j < length xs
        \<and> (\<forall>i<j. first_match P (xs ! i) = None) \<and> first_match P (xs ! j) = Some (b', n))"
      by (rule Cons.IH)
    also have "\<dots> \<longleftrightarrow> (\<exists>j b'. b = (k + j) # b' \<and> j < length (x # xs)
        \<and> (\<forall>i<j. first_match P ((x # xs) ! i) = None) \<and> first_match P ((x # xs) ! j) = Some (b', n))"
      (is "?L \<longleftrightarrow> ?R")
    proof
      assume ?L
      then obtain j b' where h: "b = (Suc k + j) # b'" "j < length xs"
        "\<forall>i<j. first_match P (xs ! i) = None" "first_match P (xs ! j) = Some (b', n)" by blast
      have "\<forall>i<Suc j. first_match P ((x # xs) ! i) = None"
        using h(3) None by (auto simp: nth_Cons split: nat.splits)
      with h show ?R by (intro exI[of _ "Suc j"] exI[of _ b']) simp
    next
      assume ?R
      then obtain j b' where h: "b = (k + j) # b'" "j < length (x # xs)"
        "\<forall>i<j. first_match P ((x # xs) ! i) = None" "first_match P ((x # xs) ! j) = Some (b', n)" by blast
      from h(4) None obtain j' where j: "j = Suc j'" by (cases j) auto
      have "\<forall>i<j'. first_match P (xs ! i) = None"
        using h(3) j by (metis Suc_less_eq nth_Cons_Suc)
      with h j show ?L by (intro exI[of _ j'] exI[of _ b']) simp
    qed
    finally show ?thesis .
  next
    case (Some r)
    obtain p m where r: "r = (p, m)" by (cases r)
    show ?thesis
    proof
      assume "find_from P k (x # xs) = Some (b, n)"
      with Some r have "b = k # p" "m = n" by (auto simp: find_from_Cons simp del: find_from.simps(2))
      with Some r show "\<exists>j b'. b = (k + j) # b' \<and> j < length (x # xs)
        \<and> (\<forall>i<j. first_match P ((x # xs) ! i) = None) \<and> first_match P ((x # xs) ! j) = Some (b', n)"
        by (intro exI[of _ 0] exI[of _ p]) simp
    next
      assume "\<exists>j b'. b = (k + j) # b' \<and> j < length (x # xs)
        \<and> (\<forall>i<j. first_match P ((x # xs) ! i) = None) \<and> first_match P ((x # xs) ! j) = Some (b', n)"
      then obtain j b' where h: "b = (k + j) # b'" "j < length (x # xs)"
        "\<forall>i<j. first_match P ((x # xs) ! i) = None" "first_match P ((x # xs) ! j) = Some (b', n)" by blast
      have "j = 0"
      proof (rule ccontr)
        assume "j \<noteq> 0"
        then have "first_match P ((x # xs) ! 0) = None" using h(3) by blast
        with Some show False by simp
      qed
      with h Some r show "find_from P k (x # xs) = Some (b, n)"
        by (simp add: find_from_Cons del: find_from.simps(2))
    qed
  qed
qed





lemma first_match_None_Tag:
  "first_match P (Tag nm i cs ks) = None \<longleftrightarrow>
     \<not> P (Tag nm i cs ks) \<and> (\<forall>x\<in>set ks. first_match P x = None)"
  by (auto simp: first_match_def find_from_None_iff)

lemma first_match_None_iff:
  "first_match P x = None \<longleftrightarrow> (\<forall>p n. get_node x p = Some n \<longrightarrow> \<not> P n)"
proof (induction x)
  case (NavigableString s)
  have only: "\<And>p n. get_node (NavigableString s) p = Some n \<Longrightarrow> n = NavigableString s"
    by (case_tac p) auto
  have "first_match P (NavigableString s) = None \<longleftrightarrow> \<not> P (NavigableString s)"
    by (simp add: first_match_def)
  also have "\<dots> \<longleftrightarrow> (\<forall>p n. get_node (NavigableString s) p = Some n \<longrightarrow> \<not> P n)"
  proof
    assume "\<not> P (NavigableString s)"
    with only show "\<forall>p n. get_node (NavigableString s) p = Some n \<longrightarrow> \<not> P n" by blast
  next
    assume "\<forall>p n. get_node (NavigableString s) p = Some n \<longrightarrow> \<not> P n"
    moreover have "get_node (NavigableString s) [] = Some (NavigableString s)" by simp
    ultimately show "\<not> P (NavigableString s)" by blast
  qed
  finally show ?case .
next
  case (Tag nm i cs ks)
  show ?case
  proof
    assume none: "first_match P (Tag nm i cs ks) = None"
    then have nP: "\<not> P (Tag nm i cs ks)" and kids: "\<forall>y\<in>set ks. first_match P y = None"
      by (simp_all add: first_match_None_Tag)
    show "\<forall>p n. get_node (Tag nm i cs ks) p = Some n \<longrightarrow> \<not> P n"
    proof (intro allI impI)
      fix p n assume g: "get_node (Tag nm i cs ks) p = Some n"
      show "\<not> P n"
      proof (cases p)
        case Nil
        with g nP show ?thesis by simp
      next
        case (Cons k q)
        with g have k: "k < length ks" and gq: "get_node (ks ! k) q = Some n"
          by (auto split: if_splits)
        from k have "ks ! k \<in> set ks" by simp
        with kids Tag.IH gq show ?thesis by blast
      qed
    qed
  next
    assume all: "\<forall>p n. get_node (Tag nm i cs ks) p = Some n \<longrightarrow> \<not> P n"
    moreover have "get_node (Tag nm i cs ks) [] = Some (Tag nm i cs ks)" by simp
    ultimately have nP: "\<not> P (Tag nm i cs ks)" by blast
    have "\<forall>y\<in>set ks. first_match P y = None"
    proof
      fix y assume y: "y \<in> set ks"
      then obtain k where k: "k < length ks" "y = ks ! k" by (auto simp: in_set_conv_nth)
      have "\<forall>q n. get_node y q = Some n \<longrightarrow> \<not> P n"
      proof (intro allI impI)
        fix q n assume "get_node y q = Some n"
        with k have "get_node (Tag nm i cs ks) (k # q) = Some n" by simp
        with all show "\<not> P n" by blast
      qed
      with Tag.IH y show "first_match P y = None" by blast
    qed
    with nP show "first_match P (Tag nm i cs ks) = None"
      by (simp add: first_match_None_Tag)
  qed
qed

lemma find_first_None_iff:
  "find_first P x = None \<longleftrightarrow> (\<forall>p n. p \<noteq> [] \<and> get_node x p = Some n \<longrightarrow> \<not> P n)"
proof (cases x)
  case (NavigableString s)
  have "\<And>p n. get_node (NavigableString s) p = Some n \<Longrightarrow> p = []"
    by (case_tac p) auto
  with NavigableString show ?thesis by auto
next
  case (Tag nm i cs ks)
  have "find_first P x = None \<longleftrightarrow> (\<forall>y\<in>set ks. first_match P y = None)"
    using Tag by (simp add: find_from_None_iff)
  also have "\<dots> \<longleftrightarrow> (\<forall>k<length ks. \<forall>q n. get_node (ks ! k) q = Some n \<longrightarrow> \<not> P n)"
    by (simp add: all_set_conv_all_nth first_match_None_iff)
  also have "\<dots> \<longleftrightarrow> (\<forall>p n. p \<noteq> [] \<and> get_node x p = Some n \<longrightarrow> \<not> P n)"
  proof
    assume l: "\<forall>k<length ks. \<forall>q n. get_node (ks ! k) q = Some n \<longrightarrow> \<not> P n"
    show "\<forall>p n. p \<noteq> [] \<and> get_node x p = Some n \<longrightarrow> \<not> P n"
    proof (intro allI impI)
      fix p n assume a: "p \<noteq> [] \<and> get_node x p = Some n"
      then obtain k q where p: "p = k # q" by (cases p) auto
      with a Tag have "k < length ks" "get_node (ks ! k) q = Some n" by (auto split: if_splits)
      with l show "\<not> P n" by blast
    qed
  next
    assume r: "\<forall>p n. p \<noteq> [] \<and> get_node x p = Some n \<longrightarrow> \<not> P n"
    show "\<forall>k<length ks. \<forall>q n. get_node (ks ! k) q = Some n \<longrightarrow> \<not> P n"
    proof (intro allI impI)
      fix k q n assume "k < length ks" "get_node (ks ! k) q = Some n"
      with Tag have "get_node x (k # q) = Some n" by simp
      with r show "\<not> P n" by blast
    qed
  qed
  finally show ?thesis .
qed






lemma find_first_first_match:
  "find_first P (Tag nm i cs ks) = Some (b, n) \<longleftrightarrow>
     (\<exists>j b'. b = j # b' \<and> j < length ks \<and> (\<forall>l<j. first_match P (ks ! l) = None)
        \<and> first_match P (ks ! j) = Some (b', n))"
  by (simp add: find_from_Some_iff)















section \<open>Properties of the HTML Cleaner\<close>

subsection \<open>Retaining the main content (lines 9-13)\<close>




text \<open>
  C10. When the file can be read, its document has the main-content element and has no
  body tag, \<open>clean_html_file\<close> ends with \<open>AttributeError\<close>; the result carries no file
  system, line 46 is not reached and nothing is written. When the main-content element
  is absent, lines 12-13 are not run: the step returns the document unchanged, and
  \<open>clean_html_file\<close> writes the output file.
\<close>

theorem C10_missing_body_raises:
  "files input_path = Some html \<Longrightarrow>
   (find_first (tag_with_id ''div'' ''mw-content-text'') (html_parser lib html) \<noteq> None
      \<and> find_first (tag_named ''body'') (html_parser lib html) = None \<longrightarrow>
    clean_html_file lib input_path output_path files = Inl (Raised AttributeError))
   \<and> (find_first (tag_with_id ''div'' ''mw-content-text'') (html_parser lib html) = None \<longrightarrow>
        retain_main_content (html_parser lib html) = Inr (html_parser lib html)
        \<and> (\<exists>soup. clean_html_file lib input_path output_path files
                    = Inr (files(output_path \<mapsto> to_str lib soup))))"
  by (auto simp: clean_html_file_def clean_soup_def retain_main_content_def)

text \<open>Both cases of C10 on the example files: \<open>a.html\<close> has no body, \<open>b.html\<close> no main content.\<close>

theorem C10_missing_body_raises_witness:
  "example_files ''raw-html/a.html'' = Some ''<div id=mw-content-text><p>Paris</p></div>''
   \<and> find_first (tag_with_id ''div'' ''mw-content-text'')
         (html_parser example_library ''<div id=mw-content-text><p>Paris</p></div>'') \<noteq> None
   \<and> find_first (tag_named ''body'')
         (html_parser example_library ''<div id=mw-content-text><p>Paris</p></div>'') = None
   \<and> clean_html_file example_library ''raw-html/a.html'' ''cleaned-html/a.html'' example_files
        = Inl (Raised AttributeError)
   \<and> example_files ''raw-html/b.html'' = Some ''Berlin''
   \<and> find_first (tag_with_id ''div'' ''mw-content-text'') (html_parser example_library ''Berlin'') = None
   \<and> retain_main_content (html_parser example_library ''Berlin'')
        = Inr (html_parser example_library ''Berlin'')"
proof -
  let ?a = "''<div id=mw-content-text><p>Paris</p></div>''"
  have a1: "example_files ''raw-html/a.html'' = Some ?a" by code_simp
  have a2: "find_first (tag_with_id ''div'' ''mw-content-text'') (html_parser example_library ?a) \<noteq> None"
    by code_simp
  have a3: "find_first (tag_named ''body'') (html_parser example_library ?a) = None"
    by code_simp
  have b1: "example_files ''raw-html/b.html'' = Some ''Berlin''" by code_simp
  have b2: "find_first (tag_with_id ''div'' ''mw-content-text'') (html_parser example_library ''Berlin'') = None"
    by code_simp
  show ?thesis
    using a1 a2 a3 b1 b2
      C10_missing_body_raises [where files = example_files and input_path = "''raw-html/a.html''"
        and html = ?a and lib = example_library and output_path = "''cleaned-html/a.html''"]
      C10_missing_body_raises [where files = example_files and input_path = "''raw-html/b.html''"
        and html = "''Berlin''" and lib = example_library and output_path = "''cleaned-html/b.html''"]
    by blast
qed

subsection \<open>Removing the "See also" section (lines 31-43)\<close>

text \<open>
  C8. In a document with no "See also" anchor (no node below the root is a \<^verbatim>\<open>span\<close> with
  id \<^verbatim>\<open>See_also\<close>), \<^verbatim>\<open>soup.find("span", id="See_also")\<close> finds nothing and the document comes
  out of the section-removal step as it went in: no node is removed.
\<close>

theorem C8_no_see_also_no_removal:
  "(\<forall>p n. p \<noteq> [] \<and> get_node soup p = Some n \<longrightarrow> \<not> tag_with_id ''span'' ''See_also'' n) \<Longrightarrow>
   find_first (tag_with_id ''span'' ''See_also'') soup = None \<and> remove_see_also soup = soup"
proof -
  assume "\<forall>p n. p \<noteq> [] \<and> get_node soup p = Some n \<longrightarrow> \<not> tag_with_id ''span'' ''See_also'' n"
  then have "find_first (tag_with_id ''span'' ''See_also'') soup = None"
    by (simp only: find_first_None_iff)
  then show ?thesis
    by (simp add: remove_see_also_def)
qed

text \<open>C8 on a page without the anchor.\<close>

theorem C8_no_see_also_no_removal_witness:
  "find_first (tag_with_id ''span'' ''See_also'') page_with_body = None
   \<and> remove_see_also page_with_body = page_with_body"
proof -
  have "find_first (tag_with_id ''span'' ''See_also'') page_with_body = None"
    by code_simp
  then have none: "\<forall>p n. p \<noteq> [] \<and> get_node page_with_body p = Some n
      \<longrightarrow> \<not> tag_with_id ''span'' ''See_also'' n"
    by (simp only: find_first_None_iff)
  show ?thesis
    using none C8_no_see_also_no_removal [of page_with_body] by blast
qed




subsection \<open>The batch (lines 55-67)\<close>




end
